theory Spec2Isabelle
  imports Complex_Main
begin

section \<open>Data model of dynamodb_chat_storage.py\<close>

text \<open>
  Python exceptions the storage class can raise: a missing dictionary key, an index out
  of range, an operation on a value of the wrong type, and the error of a failed
  DynamoDB call.
\<close>

datatype error = KeyError string | IndexError | TypeError | ClientError

text \<open>
  A content block is a dictionary such as \<open>{'text': 'hello'}\<close>; the content of a message
  is a list of blocks or a plain string (\<open>isinstance(content, list)\<close> tells them apart).

  Modelled from the spec: the classes \<open>ConversationMessage\<close> and \<open>TimestampedMessage\<close>
  (declared in \<open>multi_agent_orchestrator.types\<close>): a message is a role and a content, a
  timestamped message is a message plus an integer timestamp in milliseconds. An
  incoming message either carries a timestamp or has none, and the test
  \<open>isinstance(new_message, ConversationMessage)\<close> of the saves holds for the one that has
  none.
\<close>

type_synonym block = "(string \<times> string) list"

datatype content_t = ContentList "block list" | ContentStr string

record conversation_message =
  role :: string
  content :: content_t

record timestamped_message = conversation_message +
  timestamp :: int

datatype new_message = Plain conversation_message | Stamped timestamped_message

datatype new_messages =
  PlainBatch "conversation_message list" | StampedBatch "timestamped_message list"

text \<open>
  What a save returns: the list built by \<open>_remove_timestamps\<close>, or a list of
  \<open>TimestampedMessage\<close> objects that still carry their timestamps.
\<close>

datatype returned =
  Messages "conversation_message list" | TimestampedMessages "timestamped_message list"

text \<open>
  The persisted form. A stored message is a dictionary whose keys \<open>role\<close>, \<open>content\<close>
  and \<open>timestamp\<close> may be missing. The \<open>conversation\<close> attribute of an item may be
  absent, a list of such dictionaries, a string, or a number.
\<close>

record stored_msg =
  msg_role :: "string option"
  msg_content :: "content_t option"
  msg_timestamp :: "int option"

datatype conv_attr = ConvList "stored_msg list" | ConvStr string | ConvNum int

record item =
  PK :: string
  SK :: string
  conversation :: "conv_attr option"
  expiry :: "(string \<times> int) option"

datatype op = GetItem | PutItem | Query

record cache_entry =
  entry_timestamp :: real
  entry_data :: "conversation_message list"

datatype log_event =
    Debug_consecutive string string
  | Error_saving error
  | Error_getting error
  | Error_querying error
  | Error_unexpected_item item

text \<open>
  The object \<open>self\<close> together with the world it acts on: its configuration, the DynamoDB
  table (its items in the order a query returns them, the operations that currently
  fail, and the trace of operations issued so far), the class-level \<open>_chat_cache\<close> and
  the lines given to \<open>Logger\<close>. Clock readings (\<open>time.time()\<close>) are exact reals.
\<close>

record storage =
  ttl_key :: "string option"
  ttl_duration :: int
  table :: "item list"
  failing :: "op set"
  calls :: "op list"
  chat_cache :: "string \<rightharpoonup> cache_entry"
  logged :: "log_event list"

section \<open>Collaborators outside the file\<close>

text \<open>
  Modelled from the spec: \<open>ParticipantRole.ASSISTANT.value\<close> (the enum is declared in
  \<open>multi_agent_orchestrator.types\<close>), the role \<open>assistant\<close> of the data model.
\<close>

definition ASSISTANT_value :: string where
  "ASSISTANT_value = ''assistant''"

text \<open>
  Modelled from the spec: \<open>ChatStorage.is_same_role_as_last_message\<close> (base class, the
  spec's \<open>should_suppress\<close>): true iff the conversation is non-empty and its last entry's
  role equals the incoming role.
\<close>

definition role_of :: "new_message \<Rightarrow> string" where
  "role_of m = (case m of Plain p \<Rightarrow> role p | Stamped t \<Rightarrow> role t)"

definition is_same_role_as_last_message :: "timestamped_message list \<Rightarrow> new_message \<Rightarrow> bool" where
  "is_same_role_as_last_message conv new_msg =
     (case rev conv of [] \<Rightarrow> False | l # _ \<Rightarrow> role l = role_of new_msg)"

text \<open>
  Modelled from the spec: \<open>ChatStorage.trim_conversation\<close> (base class, the spec's
  \<open>trim\<close>): unchanged without a maximum, otherwise the last \<open>max_size\<close> entries in
  order; a maximum of 0 or less gives the empty list.
\<close>

definition trim_conversation :: "'a list \<Rightarrow> int option \<Rightarrow> 'a list" where
  "trim_conversation conv max_history_size =
     (case max_history_size of
        None \<Rightarrow> conv
      | Some n \<Rightarrow> if n \<le> 0 then [] else drop (length conv - nat n) conv)"

text \<open>
  Modelled from the spec: \<open>conversation_to_dict\<close> (from \<open>utils\<close>, the spec's \<open>encode\<close>):
  one plain record per message, the content normalised to a sequence of blocks.
\<close>

definition normalise :: "content_t \<Rightarrow> content_t" where
  "normalise c = (case c of ContentList bs \<Rightarrow> ContentList bs
                   | ContentStr s \<Rightarrow> ContentList [[(''text'', s)]])"

definition conversation_to_dict :: "timestamped_message list \<Rightarrow> stored_msg list" where
  "conversation_to_dict conv =
     map (\<lambda>m. \<lparr>msg_role = Some (role m), msg_content = Some (normalise (content m)),
               msg_timestamp = Some (timestamp m)\<rparr>) conv"

text \<open>
  The boto3 table. Every operation is recorded in \<open>calls\<close> and raises \<open>ClientError\<close>
  while it is in \<open>failing\<close>. \<open>get_item\<close> is a point lookup, \<open>put_item\<close> overwrites the
  item with the same key or adds a new one, \<open>query\<close> returns the items of the partition
  whose sort key begins with the prefix.
\<close>

definition get_item :: "storage \<Rightarrow> string \<Rightarrow> string \<Rightarrow> (error + item option) \<times> storage" where
  "get_item self pk sk =
     (let self' = self\<lparr>calls := calls self @ [GetItem]\<rparr> in
      if GetItem \<in> failing self then (Inl ClientError, self')
      else (Inr (find (\<lambda>it. PK it = pk \<and> SK it = sk) (table self)), self'))"

fun put_row :: "item \<Rightarrow> item list \<Rightarrow> item list" where
  "put_row new [] = [new]"
| "put_row new (it # its) =
     (if PK it = PK new \<and> SK it = SK new then new # its else it # put_row new its)"

definition put_item :: "storage \<Rightarrow> item \<Rightarrow> (error + unit) \<times> storage" where
  "put_item self new =
     (let self' = self\<lparr>calls := calls self @ [PutItem]\<rparr> in
      if PutItem \<in> failing self then (Inl ClientError, self')
      else (Inr (), self'\<lparr>table := put_row new (table self)\<rparr>))"

definition begins_with :: "string \<Rightarrow> string \<Rightarrow> bool" where
  "begins_with s pre = (take (length pre) s = pre)"

definition query :: "storage \<Rightarrow> string \<Rightarrow> string \<Rightarrow> (error + item list) \<times> storage" where
  "query self pk sk_prefix =
     (let self' = self\<lparr>calls := calls self @ [Query]\<rparr> in
      if Query \<in> failing self then (Inl ClientError, self')
      else (Inr (filter (\<lambda>it. PK it = pk \<and> begins_with (SK it) sk_prefix) (table self)), self'))"

section \<open>The storage class\<close>

definition generate_key :: "string \<Rightarrow> string \<Rightarrow> string \<Rightarrow> string" where
  "generate_key user_id session_id agent_id = session_id @ ''#'' @ agent_id"

definition remove_timestamps :: "timestamped_message list \<Rightarrow> conversation_message list" where
  "remove_timestamps messages = map (\<lambda>message. \<lparr>role = role message, content = content message\<rparr>) messages"

text \<open>\<open>_dict_to_conversation\<close>: each record is read in the order role, content, timestamp.\<close>

definition dict_to_message :: "stored_msg \<Rightarrow> error + timestamped_message" where
  "dict_to_message msg =
     (case msg_role msg of
        None \<Rightarrow> Inl (KeyError ''role'')
      | Some r \<Rightarrow>
         (case msg_content msg of
            None \<Rightarrow> Inl (KeyError ''content'')
          | Some c \<Rightarrow>
             (case msg_timestamp msg of
                None \<Rightarrow> Inl (KeyError ''timestamp'')
              | Some t \<Rightarrow> Inr \<lparr>role = r, content = c, timestamp = t\<rparr>)))"

fun dict_to_messages :: "stored_msg list \<Rightarrow> error + timestamped_message list" where
  "dict_to_messages [] = Inr []"
| "dict_to_messages (msg # msgs) =
     (case dict_to_message msg of
        Inl e \<Rightarrow> Inl e
      | Inr m \<Rightarrow> (case dict_to_messages msgs of Inl e \<Rightarrow> Inl e | Inr ms \<Rightarrow> Inr (m # ms)))"

text \<open>
  Iterating over a string yields its characters, and indexing a character with \<open>'role'\<close>
  raises; a number is not iterable.
\<close>

definition dict_to_conversation :: "conv_attr \<Rightarrow> error + timestamped_message list" where
  "dict_to_conversation messages =
     (case messages of
        ConvList msgs \<Rightarrow> dict_to_messages msgs
      | ConvStr s \<Rightarrow> (if s = [] then Inr [] else Inl TypeError)
      | ConvNum n \<Rightarrow> Inl TypeError)"

definition fetch_chat_with_timestamp ::
  "storage \<Rightarrow> string \<Rightarrow> string \<Rightarrow> string \<Rightarrow> (error + timestamped_message list) \<times> storage" where
  "fetch_chat_with_timestamp self user_id session_id agent_id =
     (let key = generate_key user_id session_id agent_id in
      case get_item self user_id key of
        (Inl e, self1) \<Rightarrow> (Inl e, self1\<lparr>logged := logged self1 @ [Error_getting e]\<rparr>)
      | (Inr response, self1) \<Rightarrow>
         (case dict_to_conversation
                 (case response of
                    None \<Rightarrow> ConvList []
                  | Some it \<Rightarrow> (case conversation it of None \<Rightarrow> ConvList [] | Some c \<Rightarrow> c)) of
            Inl e \<Rightarrow> (Inl e, self1\<lparr>logged := logged self1 @ [Error_getting e]\<rparr>)
          | Inr stored_messages \<Rightarrow> (Inr stored_messages, self1)))"

definition fetch_chat ::
  "storage \<Rightarrow> string \<Rightarrow> string \<Rightarrow> string \<Rightarrow> (error + conversation_message list) \<times> storage" where
  "fetch_chat self user_id session_id agent_id =
     (case fetch_chat_with_timestamp self user_id session_id agent_id of
        (Inl e, self1) \<Rightarrow> (Inl e, self1)
      | (Inr stored_messages, self1) \<Rightarrow> (Inr (remove_timestamps stored_messages), self1))"

text \<open>
  The item a save writes. \<open>if self.ttl_key\<close> is false for \<open>None\<close> and for the empty
  string.
\<close>

definition make_item ::
  "real \<Rightarrow> storage \<Rightarrow> string \<Rightarrow> string \<Rightarrow> timestamped_message list \<Rightarrow> item" where
  "make_item now self user_id key trimmed_conversation =
     \<lparr>PK = user_id, SK = key,
      conversation = Some (ConvList (conversation_to_dict trimmed_conversation)),
      expiry = (case ttl_key self of
                  None \<Rightarrow> None
                | Some k \<Rightarrow> if k = [] then None else Some (k, \<lfloor>now\<rfloor> + ttl_duration self))\<rparr>"

text \<open>
  Lines 45 to 50: a message without a timestamp gets \<open>int(time.time() * 1000)\<close>, with
  \<open>now\<close> the reading of the clock during the call (not negative, so that \<open>int\<close> is the
  floor).
\<close>

definition stamp :: "real \<Rightarrow> new_message \<Rightarrow> timestamped_message" where
  "stamp now new_msg =
     (case new_msg of
        Plain m \<Rightarrow> \<lparr>role = role m, content = content m, timestamp = \<lfloor>now * 1000\<rfloor>\<rparr>
      | Stamped m \<Rightarrow> m)"

text \<open>\<open>save_chat_message\<close>: read, suppress or append, trim, invalidate, write.\<close>

definition save_chat_message ::
  "real \<Rightarrow> storage \<Rightarrow> string \<Rightarrow> string \<Rightarrow> string \<Rightarrow> new_message \<Rightarrow> int option
     \<Rightarrow> (error + returned) \<times> storage" where
  "save_chat_message now self user_id session_id agent_id new_msg max_history_size =
     (let key = generate_key user_id session_id agent_id;
          cache_key = user_id @ '':'' @ session_id in
      case fetch_chat_with_timestamp self user_id session_id agent_id of
        (Inl e, self1) \<Rightarrow> (Inl e, self1\<lparr>logged := logged self1 @ [Error_saving e]\<rparr>)
      | (Inr existing_conversation, self1) \<Rightarrow>
         if is_same_role_as_last_message existing_conversation new_msg then
           (Inr (TimestampedMessages existing_conversation),
            self1\<lparr>logged := logged self1 @ [Debug_consecutive (role_of new_msg) agent_id]\<rparr>)
         else
           (let stamped = stamp now new_msg;
                trimmed_conversation =
                  trim_conversation (existing_conversation @ [stamped]) max_history_size;
                new = make_item now self1 user_id key trimmed_conversation;
                self2 = self1\<lparr>chat_cache := (chat_cache self1)(cache_key := None)\<rparr>
            in case put_item self2 new of
                 (Inl e, self3) \<Rightarrow> (Inl e, self3\<lparr>logged := logged self3 @ [Error_saving e]\<rparr>)
               | (Inr u, self3) \<Rightarrow> (Inr (Messages (remove_timestamps trimmed_conversation)), self3)))"

text \<open>
  Modelled from the spec: the constructor \<open>TimestampedMessage(role, content)\<close> called
  without a timestamp (declared in \<open>multi_agent_orchestrator.types\<close>) takes the time at
  which the message is accepted, in milliseconds. Lines 106 to 112 with it:
  \<open>new_messages[0]\<close> raises on an empty batch, a batch of plain messages is stamped, a
  batch of timestamped ones is kept.
\<close>

definition stamp_batch :: "real \<Rightarrow> new_messages \<Rightarrow> error + timestamped_message list" where
  "stamp_batch now new_msgs =
     (case new_msgs of
        PlainBatch [] \<Rightarrow> Inl IndexError
      | PlainBatch (m # ms) \<Rightarrow>
          Inr (map (\<lambda>new_msg. \<lparr>role = role new_msg, content = content new_msg,
                               timestamp = \<lfloor>now * 1000\<rfloor>\<rparr>) (m # ms))
      | StampedBatch [] \<Rightarrow> Inl IndexError
      | StampedBatch (m # ms) \<Rightarrow> Inr (m # ms))"

text \<open>
  \<open>save_chat_messages\<close>: the read is outside any handler of its own and only the write
  is wrapped; the cache is not mentioned.
\<close>

definition save_chat_messages ::
  "real \<Rightarrow> storage \<Rightarrow> string \<Rightarrow> string \<Rightarrow> string \<Rightarrow> new_messages \<Rightarrow> int option
     \<Rightarrow> (error + conversation_message list) \<times> storage" where
  "save_chat_messages now self user_id session_id agent_id new_msgs max_history_size =
     (let key = generate_key user_id session_id agent_id in
      case fetch_chat_with_timestamp self user_id session_id agent_id of
        (Inl e, self1) \<Rightarrow> (Inl e, self1)
      | (Inr existing_conversation, self1) \<Rightarrow>
         (case stamp_batch now new_msgs of
            Inl e \<Rightarrow> (Inl e, self1)
          | Inr stamped \<Rightarrow>
             (let trimmed_conversation =
                    trim_conversation (existing_conversation @ stamped) max_history_size;
                  new = make_item now self1 user_id key trimmed_conversation
              in case put_item self1 new of
                   (Inl e, self2) \<Rightarrow> (Inl e, self2\<lparr>logged := logged self2 @ [Error_saving e]\<rparr>)
                 | (Inr u, self2) \<Rightarrow> (Inr (remove_timestamps trimmed_conversation), self2))))"

text \<open>
  The class attributes \<open>_cache_ttl = 10\<close> (seconds) and the aggregate loop of
  \<open>fetch_all_chats\<close>. \<open>str_split\<close> is \<open>str.split\<close> with a one-character separator.
\<close>

definition cache_ttl :: real where
  "cache_ttl = 10"

fun str_split :: "char \<Rightarrow> string \<Rightarrow> string list" where
  "str_split sep [] = [[]]"
| "str_split sep (c # cs) =
     (if c = sep then [] # str_split sep cs
      else (case str_split sep cs of [] \<Rightarrow> [[c]] | f # fs \<Rightarrow> (c # f) # fs))"

text \<open>\<open>len(item.get('conversation', []))\<close> and the sum over the items.\<close>

definition len_conversation :: "item \<Rightarrow> error + nat" where
  "len_conversation it =
     (case conversation it of
        None \<Rightarrow> Inr 0
      | Some (ConvList msgs) \<Rightarrow> Inr (length msgs)
      | Some (ConvStr s) \<Rightarrow> Inr (length s)
      | Some (ConvNum n) \<Rightarrow> Inl TypeError)"

fun all_msgs_count :: "item list \<Rightarrow> error + nat" where
  "all_msgs_count [] = Inr 0"
| "all_msgs_count (it # its) =
     (case len_conversation it of
        Inl e \<Rightarrow> Inl e
      | Inr n \<Rightarrow> (case all_msgs_count its of Inl e \<Rightarrow> Inl e | Inr m \<Rightarrow> Inr (n + m)))"

text \<open>\<open>content[0]['text'] if isinstance(content, list) else content\<close>\<close>

definition first_text :: "content_t \<Rightarrow> error + string" where
  "first_text c =
     (case c of
        ContentList [] \<Rightarrow> Inl IndexError
      | ContentList (b # bs) \<Rightarrow>
          (case map_of b ''text'' of None \<Rightarrow> Inl (KeyError ''text'') | Some t \<Rightarrow> Inr t)
      | ContentStr s \<Rightarrow> Inr s)"

text \<open>The body of the loop over the messages of one item (lines 225 to 237).\<close>

definition tag_message :: "string \<Rightarrow> stored_msg \<Rightarrow> error + timestamped_message" where
  "tag_message agent_id msg =
     (case msg_content msg of
        None \<Rightarrow> Inl (KeyError ''content'')
      | Some c \<Rightarrow>
         (case msg_role msg of
            None \<Rightarrow> Inl (KeyError ''role'')
          | Some r \<Rightarrow>
             (case (if r = ASSISTANT_value then
                      (case first_text c of
                         Inl e \<Rightarrow> Inl e
                       | Inr text \<Rightarrow>
                           Inr (ContentList [[(''text'', ''['' @ agent_id @ ''] '' @ text)]]))
                    else (case c of
                            ContentList bs \<Rightarrow> Inr c
                          | ContentStr s \<Rightarrow> Inr (ContentList [[(''text'', s)]]))) of
                Inl e \<Rightarrow> Inl e
              | Inr c' \<Rightarrow>
                 (case msg_timestamp msg of
                    None \<Rightarrow> Inl (KeyError ''timestamp'')
                  | Some t \<Rightarrow> Inr \<lparr>role = r, content = c', timestamp = t\<rparr>))))"

fun process_msgs ::
  "string \<Rightarrow> stored_msg list \<Rightarrow> timestamped_message list \<Rightarrow> error + timestamped_message list" where
  "process_msgs agent_id [] all_chats = Inr all_chats"
| "process_msgs agent_id (msg # msgs) all_chats =
     (case tag_message agent_id msg of
        Inl e \<Rightarrow> Inl e
      | Inr m \<Rightarrow> process_msgs agent_id msgs (all_chats @ [m]))"

text \<open>
  The loop over the items (lines 214 to 237): an item whose \<open>conversation\<close> is not a list
  is logged and skipped; otherwise the agent is the second field of the sort key.
\<close>

fun process_items ::
  "item list \<Rightarrow> timestamped_message list \<Rightarrow> log_event list
     \<Rightarrow> (error + timestamped_message list) \<times> log_event list" where
  "process_items [] all_chats lg = (Inr all_chats, lg)"
| "process_items (it # its) all_chats lg =
     (case conversation it of
        Some (ConvList conv) \<Rightarrow>
          (case str_split CHR ''#'' (SK it) of
             f0 # agent_id # fs \<Rightarrow>
               (case process_msgs agent_id conv all_chats of
                  Inl e \<Rightarrow> (Inl e, lg)
                | Inr all_chats' \<Rightarrow> process_items its all_chats' lg)
           | _ \<Rightarrow> (Inl IndexError, lg))
      | _ \<Rightarrow> process_items its all_chats (lg @ [Error_unexpected_item it]))"

text \<open>
  \<open>_clean_cache\<close>; \<open>hash_str\<close> stands for \<open>hash(str(current_time))\<close>, which differs from
  process to process.
\<close>

definition clean_cache :: "(real \<Rightarrow> int) \<Rightarrow> storage \<Rightarrow> real \<Rightarrow> storage" where
  "clean_cache hash_str self current_time =
     (if hash_str current_time mod 100 = 0 then
        self\<lparr>chat_cache :=
               (\<lambda>key. case chat_cache self key of
                        None \<Rightarrow> None
                      | Some entry \<Rightarrow>
                          if current_time - entry_timestamp entry > cache_ttl * 10 then None
                          else Some entry)\<rparr>
      else self)"

definition cache_lookup :: "storage \<Rightarrow> string \<Rightarrow> real \<Rightarrow> conversation_message list option" where
  "cache_lookup self cache_key current_time =
     (case chat_cache self cache_key of
        None \<Rightarrow> None
      | Some cache_entry \<Rightarrow>
          if current_time - entry_timestamp cache_entry < cache_ttl
          then Some (entry_data cache_entry) else None)"

definition fetch_all_chats ::
  "(real \<Rightarrow> int) \<Rightarrow> real \<Rightarrow> storage \<Rightarrow> string \<Rightarrow> string
     \<Rightarrow> (error + conversation_message list) \<times> storage" where
  "fetch_all_chats hash_str current_time self user_id session_id =
     (let cache_key = user_id @ '':'' @ session_id in
      case cache_lookup self cache_key current_time of
        Some data \<Rightarrow> (Inr data, self)
      | None \<Rightarrow>
         (case query self user_id (session_id @ ''#'') of
            (Inl e, self1) \<Rightarrow> (Inl e, self1\<lparr>logged := logged self1 @ [Error_querying e]\<rparr>)
          | (Inr items, self1) \<Rightarrow>
             if items = [] then
               (Inr [], self1\<lparr>chat_cache := (chat_cache self1)
                    (cache_key \<mapsto> \<lparr>entry_timestamp = current_time, entry_data = []\<rparr>)\<rparr>)
             else
               (case all_msgs_count items of
                  Inl e \<Rightarrow> (Inl e, self1\<lparr>logged := logged self1 @ [Error_querying e]\<rparr>)
                | Inr n \<Rightarrow>
                   (case process_items items [] (logged self1) of
                      (Inl e, lg) \<Rightarrow> (Inl e, self1\<lparr>logged := lg @ [Error_querying e]\<rparr>)
                    | (Inr all_chats, lg) \<Rightarrow>
                       (let result = remove_timestamps (sort_key timestamp all_chats);
                            self2 = self1\<lparr>logged := lg, chat_cache := (chat_cache self1)
                              (cache_key \<mapsto> \<lparr>entry_timestamp = current_time,
                                             entry_data = result\<rparr>)\<rparr>
                        in (Inr result, clean_cache hash_str self2 current_time))))))"

section \<open>Notions used to state the properties\<close>

text \<open>
  The items a query for a session returns, and what the code makes of a query result on
  a cache miss (the count of line 210, the loop of lines 214 to 237, the sort and
  \<open>_remove_timestamps\<close>).
\<close>

definition session_items :: "storage \<Rightarrow> string \<Rightarrow> string \<Rightarrow> item list" where
  "session_items self user_id session_id =
     filter (\<lambda>it. PK it = user_id \<and> begins_with (SK it) (session_id @ ''#'')) (table self)"

definition aggregate :: "item list \<Rightarrow> error + conversation_message list" where
  "aggregate items =
     (case all_msgs_count items of
        Inl e \<Rightarrow> Inl e
      | Inr n \<Rightarrow>
         (case fst (process_items items [] []) of
            Inl e \<Rightarrow> Inl e
          | Inr all_chats \<Rightarrow> Inr (remove_timestamps (sort_key timestamp all_chats))))"

text \<open>
  One item as the loop of lines 219 to 237 tags it: every stored message of a list
  conversation, in order, through the body of the inner loop.
\<close>

definition item_tagged :: "item \<Rightarrow> timestamped_message list \<Rightarrow> bool" where
  "item_tagged it ds =
     (case conversation it of
        Some (ConvList conv) \<Rightarrow>
          (\<exists>f0 agent_id fs. str_split CHR ''#'' (SK it) = f0 # agent_id # fs
             \<and> list_all2 (\<lambda>msg m. tag_message agent_id msg = Inr m) conv ds)
      | _ \<Rightarrow> ds = [])"

section \<open>The merged view in the words of the spec\<close>

text \<open>
  Section 4.2: decoding a record gives its role, content and timestamp, and fails when
  one of them is missing. Section 4.4, step 2: the agent is the second field of the
  secondary key split on \<open>#\<close>.
\<close>

definition spec_decode :: "stored_msg \<Rightarrow> timestamped_message option" where
  "spec_decode record =
     (case (msg_role record, msg_content record, msg_timestamp record) of
        (Some r, Some c, Some t) \<Rightarrow> Some \<lparr>role = r, content = c, timestamp = t\<rparr>
      | _ \<Rightarrow> None)"

definition spec_agent_id :: "string \<Rightarrow> string option" where
  "spec_agent_id secondary =
     (case str_split CHR ''#'' secondary of f0 # agent_id # fs \<Rightarrow> Some agent_id | _ \<Rightarrow> None)"

text \<open>
  Step 3: content that is not a list is normalised to a single text block; for an
  assistant message the first text block (the first block with a \<open>text\<close>) gets the
  prefix \<open>"[" + agent_id + "] "\<close>, and every other block stays as it is.
\<close>

definition blocks_of :: "content_t \<Rightarrow> block list" where
  "blocks_of c = (case c of ContentList bs \<Rightarrow> bs | ContentStr s \<Rightarrow> [[(''text'', s)]])"

fun prefix_first_text :: "string \<Rightarrow> block list \<Rightarrow> block list" where
  "prefix_first_text p [] = []"
| "prefix_first_text p (b # bs) =
     (case map_of b ''text'' of
        Some t \<Rightarrow> map (\<lambda>(k, v). if k = ''text'' then (k, p @ v) else (k, v)) b # bs
      | None \<Rightarrow> b # prefix_first_text p bs)"

definition spec_label :: "string \<Rightarrow> timestamped_message \<Rightarrow> timestamped_message" where
  "spec_label agent_id m =
     m\<lparr>content := ContentList
          (if role m = ''assistant''
           then prefix_first_text (''['' @ agent_id @ ''] '') (blocks_of (content m))
           else blocks_of (content m))\<rparr>"

text \<open>
  Steps 3 to 5: every message of every item, concatenated, sorted by timestamp
  ascending, timestamps projected away. An item that does not decode contributes
  nothing (section 7).
\<close>

definition spec_item_messages :: "item \<Rightarrow> timestamped_message list" where
  "spec_item_messages it =
     (case conversation it of
        Some (ConvList records) \<Rightarrow>
          (case (spec_agent_id (SK it), those (map spec_decode records)) of
             (Some agent_id, Some ds) \<Rightarrow> map (spec_label agent_id) ds
           | _ \<Rightarrow> [])
      | _ \<Rightarrow> [])"

definition spec_aggregate :: "item list \<Rightarrow> conversation_message list" where
  "spec_aggregate items =
     map (\<lambda>m. \<lparr>role = role m, content = content m\<rparr>)
       (sort_key timestamp (concat (map spec_item_messages items)))"




section \<open>The labelling rule of the code\<close>

text \<open>
  What the code does with one stored message, stated as a relation between the record
  and the message returned for it: role and timestamp are the record's; the content of
  an assistant message is one text block, the prefix followed by the text of the first
  block of the stored content (or by the stored content when it is a plain string), and
  there is no such message when the list is empty or its first block has no \<open>text\<close>;
  any other content is the stored one, a plain string made one text block. An item whose
  conversation is a list gives one message for each of its records, in order; any other
  item gives none.
\<close>

definition labelled :: "string \<Rightarrow> stored_msg \<Rightarrow> timestamped_message \<Rightarrow> bool" where
  "labelled agent_id msg m =
     (case (msg_role msg, msg_content msg, msg_timestamp msg) of
        (Some r, Some c, Some t) \<Rightarrow>
          role m = r \<and> timestamp m = t \<and>
          (if r = ''assistant'' then
             (case c of
                ContentStr text \<Rightarrow>
                  content m = ContentList [[(''text'', ''['' @ agent_id @ ''] '' @ text)]]
              | ContentList [] \<Rightarrow> False
              | ContentList (b # bs) \<Rightarrow>
                  (case map_of b ''text'' of
                     Some text \<Rightarrow>
                       content m = ContentList [[(''text'', ''['' @ agent_id @ ''] '' @ text)]]
                   | None \<Rightarrow> False))
           else content m = ContentList (blocks_of c))
      | _ \<Rightarrow> False)"

definition item_labelled :: "item \<Rightarrow> timestamped_message list \<Rightarrow> bool" where
  "item_labelled it ds =
     (case conversation it of
        Some (ConvList conv) \<Rightarrow>
          (case str_split CHR ''#'' (SK it) of
             f0 # agent_id # fs \<Rightarrow> list_all2 (labelled agent_id) conv ds
           | _ \<Rightarrow> False)
      | _ \<Rightarrow> ds = [])"

section \<open>Example stores\<close>

text \<open>
  User \<open>u\<close>, session \<open>s\<close>: agent \<open>A\<close> holds a user turn at time 1, agent \<open>B\<close> an
  assistant turn at time 2.
\<close>

definition user_hi :: stored_msg where
  "user_hi = \<lparr>msg_role = Some ''user'', msg_content = Some (ContentList [[(''text'', ''hi'')]]),
              msg_timestamp = Some 1\<rparr>"

definition assistant_hello :: stored_msg where
  "assistant_hello = \<lparr>msg_role = Some ''assistant'',
                      msg_content = Some (ContentList [[(''text'', ''hello'')]]),
                      msg_timestamp = Some 2\<rparr>"

definition item_of :: "string \<Rightarrow> conv_attr option \<Rightarrow> item" where
  "item_of agent c = \<lparr>PK = ''u'', SK = ''s#'' @ agent, conversation = c, expiry = None\<rparr>"

definition store_of :: "item list \<Rightarrow> storage" where
  "store_of items = \<lparr>ttl_key = None, ttl_duration = 3600, table = items, failing = {},
                     calls = [], chat_cache = Map.empty, logged = []\<rparr>"

definition ex_two_agents :: storage where
  "ex_two_agents = store_of [item_of ''A'' (Some (ConvList [user_hi])),
                             item_of ''B'' (Some (ConvList [assistant_hello]))]"

text \<open>
  Further stores over the same two agents: the table unreachable for reads; the table
  unreachable for writes; an aggregate cached at time 5 (the true one, and a stale empty
  one); the store after agent \<open>A\<close> saved an assistant turn at time 6; an assistant
  message whose content is the empty list; a record without \<open>content\<close>; an item
  without a \<open>conversation\<close> attribute.
\<close>

definition ex_store_down :: storage where
  "ex_store_down = ex_two_agents\<lparr>failing := {GetItem}\<rparr>"

definition ex_cached :: storage where
  "ex_cached = ex_two_agents\<lparr>chat_cache := [''u:s'' \<mapsto> \<lparr>entry_timestamp = 5, entry_data =
       [\<lparr>role = ''user'', content = ContentList [[(''text'', ''hi'')]]\<rparr>,
        \<lparr>role = ''assistant'', content = ContentList [[(''text'', ''[B] hello'')]]\<rparr>]\<rparr>]\<rparr>"

definition ex_stale :: storage where
  "ex_stale = ex_two_agents\<lparr>chat_cache := [''u:s'' \<mapsto> \<lparr>entry_timestamp = 5, entry_data = []\<rparr>]\<rparr>"

definition ex_write_down :: storage where
  "ex_write_down = ex_stale\<lparr>failing := {PutItem}\<rparr>"


definition ex_empty_content :: storage where
  "ex_empty_content =
     store_of [item_of ''B'' (Some (ConvList [\<lparr>msg_role = Some ''assistant'',
                 msg_content = Some (ContentList []), msg_timestamp = Some 2\<rparr>]))]"

definition ex_malformed :: storage where
  "ex_malformed =
     store_of [item_of ''A'' (Some (ConvList [\<lparr>msg_role = Some ''user'', msg_content = None,
                                              msg_timestamp = Some 1\<rparr>])),
               item_of ''B'' (Some (ConvList [assistant_hello]))]"

definition ex_no_conversation :: storage where
  "ex_no_conversation =
     store_of [item_of ''A'' None, item_of ''B'' (Some (ConvList [assistant_hello]))]"

text \<open>
  Both agents with several turns at interleaved times; an assistant message of two text
  blocks; one whose first block is an image; the two-block message followed by a user
  turn given as a plain string; the stale cache with the table unreachable for reads.
\<close>

definition ex_interleaved :: storage where
  "ex_interleaved =
     store_of [item_of ''A'' (Some (ConvList
                 [user_hi,
                  \<lparr>msg_role = Some ''assistant'', msg_content = Some (ContentStr ''yes''),
                   msg_timestamp = Some 3\<rparr>,
                  \<lparr>msg_role = Some ''user'', msg_content = Some (ContentStr ''bye''),
                   msg_timestamp = Some 5\<rparr>])),
               item_of ''B'' (Some (ConvList
                 [assistant_hello,
                  \<lparr>msg_role = Some ''user'', msg_content = Some (ContentList [[(''text'', ''more'')]]),
                   msg_timestamp = Some 4\<rparr>]))]"

definition ex_two_blocks :: storage where
  "ex_two_blocks =
     store_of [item_of ''B'' (Some (ConvList
                 [\<lparr>msg_role = Some ''assistant'',
                   msg_content = Some (ContentList [[(''text'', ''hello'')], [(''text'', ''world'')]]),
                   msg_timestamp = Some 2\<rparr>]))]"

definition ex_image_first :: storage where
  "ex_image_first =
     store_of [item_of ''B'' (Some (ConvList
                 [\<lparr>msg_role = Some ''assistant'',
                   msg_content = Some (ContentList [[(''image'', ''png'')], [(''text'', ''hello'')]]),
                   msg_timestamp = Some 2\<rparr>]))]"

definition ex_mixed :: storage where
  "ex_mixed =
     store_of [item_of ''B'' (Some (ConvList
                 [\<lparr>msg_role = Some ''assistant'',
                   msg_content = Some (ContentList [[(''text'', ''hello'')], [(''text'', ''world'')]]),
                   msg_timestamp = Some 2\<rparr>,
                  \<lparr>msg_role = Some ''user'', msg_content = Some (ContentStr ''thanks''),
                   msg_timestamp = Some 3\<rparr>]))]"

definition ex_read_down :: storage where
  "ex_read_down = ex_stale\<lparr>failing := {GetItem}\<rparr>"

section \<open>Frame lemmas for the table operations and the saves\<close>

lemma get_item_frame:
  "get_item self pk sk = (r, self') \<Longrightarrow>
   table self' = table self \<and> failing self' = failing self \<and> chat_cache self' = chat_cache self
   \<and> ttl_key self' = ttl_key self \<and> ttl_duration self' = ttl_duration self
   \<and> calls self' = calls self @ [GetItem] \<and> logged self' = logged self"
  by (auto simp: get_item_def Let_def split: if_splits)

lemma fetch_chat_with_timestamp_frame:
  "fetch_chat_with_timestamp self user_id session_id agent_id = (r, self') \<Longrightarrow>
   table self' = table self \<and> failing self' = failing self \<and> chat_cache self' = chat_cache self
   \<and> ttl_key self' = ttl_key self \<and> ttl_duration self' = ttl_duration self
   \<and> calls self' = calls self @ [GetItem]"
  unfolding fetch_chat_with_timestamp_def Let_def
  by (auto split: prod.splits sum.splits dest: get_item_frame)

lemma put_item_frame:
  "put_item self new = (r, self') \<Longrightarrow>
   failing self' = failing self \<and> chat_cache self' = chat_cache self
   \<and> calls self' = calls self @ [PutItem] \<and> logged self' = logged self
   \<and> (r = Inl ClientError \<and> PutItem \<in> failing self \<and> table self' = table self
      \<or> r = Inr () \<and> PutItem \<notin> failing self \<and> table self' = put_row new (table self))"
  by (auto simp: put_item_def Let_def split: if_splits)


lemma save_chat_message_write:
  assumes rd: "fetch_chat_with_timestamp self user_id session_id agent_id = (Inr existing, self1)"
    and sup: "\<not> is_same_role_as_last_message existing new_msg"
    and sv: "save_chat_message now self user_id session_id agent_id new_msg max_history_size = (res, self')"
  shows "chat_cache self' = (chat_cache self)((user_id @ '':'' @ session_id) := None)"
    and "calls self' = calls self @ [GetItem, PutItem]"
    and "failing self' = failing self"
    and "PutItem \<in> failing self \<Longrightarrow> res = Inl ClientError \<and> table self' = table self"
    and "PutItem \<notin> failing self \<Longrightarrow>
           res = Inr (Messages (remove_timestamps (trim_conversation
                   (existing @ [stamp now new_msg]) max_history_size)))
           \<and> table self' = put_row (make_item now self user_id (generate_key user_id session_id agent_id)
                 (trim_conversation (existing @ [stamp now new_msg]) max_history_size)) (table self)"
proof -
  note fr = fetch_chat_with_timestamp_frame [OF rd]
  define new where "new = make_item now self1 user_id (generate_key user_id session_id agent_id)
                 (trim_conversation (existing @ [stamp now new_msg]) max_history_size)"
  define self2 where "self2 = self1\<lparr>chat_cache := (chat_cache self1)((user_id @ '':'' @ session_id) := None)\<rparr>"
  obtain r3 self3 where p: "put_item self2 new = (r3, self3)"
    by (cases "put_item self2 new")
  note pf = put_item_frame [OF p]
  have mk: "make_item now self1 = make_item now self"
    using fr by (auto simp: make_item_def fun_eq_iff split: option.splits)
  have sv': "(res, self') = (case r3 of Inl e \<Rightarrow> (Inl e, self3\<lparr>logged := logged self3 @ [Error_saving e]\<rparr>)
               | Inr u \<Rightarrow> (Inr (Messages (remove_timestamps (trim_conversation
                    (existing @ [stamp now new_msg]) max_history_size))), self3))"
    using sv rd sup p
    by (auto simp: save_chat_message_def Let_def new_def self2_def split: sum.splits)
  have s2: "failing self2 = failing self" "calls self2 = calls self @ [GetItem]"
     "table self2 = table self" "chat_cache self2 = (chat_cache self)((user_id @ '':'' @ session_id) := None)"
    using fr by (simp_all add: self2_def)
  show "chat_cache self' = (chat_cache self)((user_id @ '':'' @ session_id) := None)"
    using sv' pf s2 by (auto split: sum.splits)
  show "calls self' = calls self @ [GetItem, PutItem]"
    using sv' pf s2 by (auto split: sum.splits)
  show "failing self' = failing self"
    using sv' pf s2 by (auto split: sum.splits)
  show "PutItem \<in> failing self \<Longrightarrow> res = Inl ClientError \<and> table self' = table self"
    using sv' pf s2 by (auto split: sum.splits)
  show "PutItem \<notin> failing self \<Longrightarrow>
           res = Inr (Messages (remove_timestamps (trim_conversation
                   (existing @ [stamp now new_msg]) max_history_size)))
           \<and> table self' = put_row (make_item now self user_id (generate_key user_id session_id agent_id)
                 (trim_conversation (existing @ [stamp now new_msg]) max_history_size)) (table self)"
    using sv' pf s2 mk by (auto simp: new_def split: sum.splits)
qed

lemma save_chat_message_read_error:
  assumes rd: "fetch_chat_with_timestamp self user_id session_id agent_id = (Inl e, self1)"
  shows "save_chat_message now self user_id session_id agent_id new_msg max_history_size =
           (Inl e, self1\<lparr>logged := logged self1 @ [Error_saving e]\<rparr>)"
  using rd by (simp add: save_chat_message_def)


section \<open>The aggregate loop\<close>

lemma process_msgs_acc:
  "process_msgs agent_id msgs acc =
     (case process_msgs agent_id msgs [] of Inl e \<Rightarrow> Inl e | Inr out \<Rightarrow> Inr (acc @ out))"
proof (induction msgs arbitrary: acc)
  case Nil
  show ?case by simp
next
  case (Cons msg msgs)
  show ?case
  proof (cases "tag_message agent_id msg")
    case (Inl e)
    then show ?thesis by simp
  next
    case (Inr m)
    have "process_msgs agent_id (msg # msgs) acc = process_msgs agent_id msgs (acc @ [m])"
      using Inr by simp
    also have "\<dots> = (case process_msgs agent_id msgs [] of Inl e \<Rightarrow> Inl e | Inr out \<Rightarrow> Inr ((acc @ [m]) @ out))"
      by (rule Cons.IH)
    finally show ?thesis
      using Inr Cons.IH [of "[m]"] by (simp split: sum.splits)
  qed
qed

lemma process_items_lg:
  "fst (process_items its acc lg) = fst (process_items its acc [])"
proof (induction its arbitrary: acc lg)
  case Nil
  show ?case by simp
next
  case (Cons it its)
  have a: "\<And>acc lg. fst (process_items its acc lg) = fst (process_items its acc [])"
    by (rule Cons.IH)
  show ?case
    by (auto simp: a [of _ "lg @ _"] a [of _ "[_]"] a [of _ lg]
             split: option.splits conv_attr.splits list.splits sum.splits)
qed

lemma process_items_acc:
  "fst (process_items its acc lg) =
     (case fst (process_items its [] []) of Inl e \<Rightarrow> Inl e | Inr out \<Rightarrow> Inr (acc @ out))"
proof (induction its arbitrary: acc lg)
  case Nil
  show ?case by simp
next
  case (Cons it its)
  note lg0 = process_items_lg [of its _ "lg @ _"] process_items_lg [of its _ "[_]"]
    process_items_lg [of its _ lg]
  show ?case
  proof (cases "conversation it")
    case None
    then show ?thesis using Cons.IH [of acc "[]"] by (simp add: lg0)
  next
    case (Some c)
    show ?thesis
    proof (cases c)
      case (ConvStr s)
      with Some show ?thesis using Cons.IH [of acc "[]"] by (simp add: lg0)
    next
      case (ConvNum n)
      with Some show ?thesis using Cons.IH [of acc "[]"] by (simp add: lg0)
    next
      case (ConvList conv)
      show ?thesis
      proof (cases "str_split CHR ''#'' (SK it)")
        case Nil
        with Some ConvList show ?thesis by simp
      next
        case f: (Cons f0 rest)
        show ?thesis
        proof (cases rest)
          case Nil
          with Some ConvList f show ?thesis by simp
        next
          case (Cons agent_id fs)
          show ?thesis
          proof (cases "process_msgs agent_id conv []")
            case (Inl e)
            with Some ConvList f Cons process_msgs_acc [of agent_id conv acc]
            show ?thesis by simp
          next
            case (Inr ds)
            have 1: "process_msgs agent_id conv acc = Inr (acc @ ds)"
              using Inr process_msgs_acc [of agent_id conv acc] by simp
            have 2: "fst (process_items its (acc @ ds) []) =
              (case fst (process_items its [] []) of Inl e \<Rightarrow> Inl e | Inr out \<Rightarrow> Inr ((acc @ ds) @ out))"
              by (rule Cons.IH)
            have 3: "fst (process_items its ds []) =
              (case fst (process_items its [] []) of Inl e \<Rightarrow> Inl e | Inr out \<Rightarrow> Inr (ds @ out))"
              by (rule Cons.IH)
            show ?thesis
              using Some ConvList f Cons Inr 1 2 3
              by (simp add: lg0 split: sum.splits)
          qed
        qed
      qed
    qed
  qed
qed

lemma process_items_Cons:
  "fst (process_items (it # its) [] lg) =
     (case fst (process_items [it] [] []) of
        Inl e \<Rightarrow> Inl e
      | Inr ds \<Rightarrow> (case fst (process_items its [] []) of
                     Inl e \<Rightarrow> Inl e | Inr out \<Rightarrow> Inr (ds @ out)))"
proof -
  have a: "\<And>acc lg. fst (process_items its acc lg) =
     (case fst (process_items its [] []) of Inl e \<Rightarrow> Inl e | Inr out \<Rightarrow> Inr (acc @ out))"
    by (rule process_items_acc)
  show ?thesis
    by (auto simp: a [of _ "lg @ _"] a [of _ "[_]"] a [of _ lg]
             split: option.splits conv_attr.splits list.splits sum.splits)
qed

lemma clean_cache_frame:
  "calls (clean_cache hash_str self t) = calls self \<and> table (clean_cache hash_str self t) = table self
   \<and> logged (clean_cache hash_str self t) = logged self
   \<and> failing (clean_cache hash_str self t) = failing self"
  by (simp add: clean_cache_def)

lemma fetch_all_chats_hit:
  "cache_lookup self (user_id @ '':'' @ session_id) t = Some d \<Longrightarrow>
   fetch_all_chats hash_str t self user_id session_id = (Inr d, self)"
  by (simp add: fetch_all_chats_def)

lemma fetch_all_chats_miss:
  assumes miss: "cache_lookup self (user_id @ '':'' @ session_id) t = None"
  shows "fst (fetch_all_chats hash_str t self user_id session_id) =
           (if Query \<in> failing self then Inl ClientError
            else aggregate (session_items self user_id session_id))"
    and "calls (snd (fetch_all_chats hash_str t self user_id session_id)) = calls self @ [Query]"
    and "table (snd (fetch_all_chats hash_str t self user_id session_id)) = table self"
proof -
  define items where "items = session_items self user_id session_id"
  define self1 where "self1 = self\<lparr>calls := calls self @ [Query]\<rparr>"
  have q: "query self user_id (session_id @ ''#'') =
            (if Query \<in> failing self then (Inl ClientError, self1) else (Inr items, self1))"
    by (simp add: query_def Let_def items_def session_items_def self1_def)
  obtain r lg where pi: "process_items items [] (logged self1) = (r, lg)"
    by (cases "process_items items [] (logged self1)")
  have r: "r = fst (process_items items [] [])"
    using pi process_items_lg [of items "[]" "logged self1"] by simp
  have e: "items = [] \<Longrightarrow> aggregate items = Inr []"
    by (simp add: aggregate_def remove_timestamps_def)
  show "fst (fetch_all_chats hash_str t self user_id session_id) =
           (if Query \<in> failing self then Inl ClientError
            else aggregate (session_items self user_id session_id))"
    using miss q pi r e unfolding fetch_all_chats_def Let_def items_def [symmetric]
    by (auto simp: aggregate_def split: sum.splits)
  show "calls (snd (fetch_all_chats hash_str t self user_id session_id)) = calls self @ [Query]"
    using miss q pi unfolding fetch_all_chats_def Let_def items_def [symmetric]
    by (auto simp: clean_cache_frame self1_def split: sum.splits)
  show "table (snd (fetch_all_chats hash_str t self user_id session_id)) = table self"
    using miss q pi unfolding fetch_all_chats_def Let_def items_def [symmetric]
    by (auto simp: clean_cache_frame self1_def split: sum.splits)
qed

section \<open>Which messages the aggregate holds, and which items it skips\<close>










lemma process_msgs_Cons:
  "process_msgs agent_id (msg # conv) [] =
     (case tag_message agent_id msg of
        Inl e \<Rightarrow> Inl e
      | Inr m \<Rightarrow> (case process_msgs agent_id conv [] of Inl e \<Rightarrow> Inl e | Inr out \<Rightarrow> Inr (m # out)))"
proof (cases "tag_message agent_id msg")
  case (Inl e)
  then show ?thesis by simp
next
  case (Inr m)
  have "process_msgs agent_id (msg # conv) [] = process_msgs agent_id conv [m]"
    using Inr by simp
  also have "\<dots> = (case process_msgs agent_id conv [] of Inl e \<Rightarrow> Inl e | Inr out \<Rightarrow> Inr ([m] @ out))"
    by (rule process_msgs_acc)
  finally show ?thesis using Inr by (simp only: sum.case append_Cons append_Nil)
qed

lemma process_msgs_tagged:
  "process_msgs agent_id conv [] = Inr ds \<longleftrightarrow>
     list_all2 (\<lambda>msg m. tag_message agent_id msg = Inr m) conv ds"
proof (induction conv arbitrary: ds)
  case Nil
  show ?case by auto
next
  case (Cons msg conv)
  show ?case
  proof
    assume a: "process_msgs agent_id (msg # conv) [] = Inr ds"
    then obtain m out where 1: "tag_message agent_id msg = Inr m"
      and 2: "process_msgs agent_id conv [] = Inr out" and 3: "ds = m # out"
      unfolding process_msgs_Cons by (auto split: sum.splits)
    from 2 Cons.IH [of out] have "list_all2 (\<lambda>msg m. tag_message agent_id msg = Inr m) conv out"
      by blast
    with 1 3 show "list_all2 (\<lambda>msg m. tag_message agent_id msg = Inr m) (msg # conv) ds"
      by simp
  next
    assume "list_all2 (\<lambda>msg m. tag_message agent_id msg = Inr m) (msg # conv) ds"
    then obtain m out where 1: "tag_message agent_id msg = Inr m"
      and 2: "list_all2 (\<lambda>msg m. tag_message agent_id msg = Inr m) conv out" and 3: "ds = m # out"
      by (auto simp: list_all2_Cons1)
    from 2 Cons.IH [of out] have "process_msgs agent_id conv [] = Inr out" by blast
    with 1 3 show "process_msgs agent_id (msg # conv) [] = Inr ds"
      unfolding process_msgs_Cons by simp
  qed
qed

lemma process_item_tagged:
  "fst (process_items [it] [] []) = Inr ds \<longleftrightarrow> item_tagged it ds"
proof (cases "conversation it")
  case None
  then show ?thesis by (auto simp: item_tagged_def)
next
  case (Some c)
  show ?thesis
  proof (cases c)
    case (ConvList conv)
    show ?thesis
    proof (cases "str_split CHR ''#'' (SK it)")
      case Nil
      with Some ConvList show ?thesis by (simp add: item_tagged_def)
    next
      case f: (Cons f0 rest)
      show ?thesis
      proof (cases rest)
        case Nil
        with Some ConvList f show ?thesis by (simp add: item_tagged_def)
      next
        case (Cons agent_id fs)
        have "fst (process_items [it] [] []) = process_msgs agent_id conv []"
          using Some ConvList f Cons by (simp split: sum.splits)
        then show ?thesis
          using Some ConvList f Cons process_msgs_tagged [of agent_id conv ds]
          by (simp add: item_tagged_def)
      qed
    qed
  next
    case (ConvStr s)
    with Some show ?thesis by (auto simp: item_tagged_def)
  next
    case (ConvNum n)
    with Some show ?thesis by (auto simp: item_tagged_def)
  qed
qed

lemma process_items_tagged:
  "fst (process_items its [] lg) = Inr out \<longleftrightarrow>
     (\<exists>dss. list_all2 item_tagged its dss \<and> out = concat dss)"
proof (induction its arbitrary: out lg)
  case Nil
  show ?case by auto
next
  case (Cons it its)
  note c = process_items_Cons [of it its lg]
  show ?case
  proof
    assume a: "fst (process_items (it # its) [] lg) = Inr out"
    with c obtain ds rest where 1: "fst (process_items [it] [] []) = Inr ds"
      and 2: "fst (process_items its [] []) = Inr rest" and 3: "out = ds @ rest"
      by (auto split: sum.splits)
    from 2 Cons.IH [of "[]" rest] obtain dss where "list_all2 item_tagged its dss" "rest = concat dss"
      by blast
    with 1 3 process_item_tagged [of it ds]
    have "list_all2 item_tagged (it # its) (ds # dss) \<and> out = concat (ds # dss)" by simp
    then show "\<exists>dss. list_all2 item_tagged (it # its) dss \<and> out = concat dss" by blast
  next
    assume "\<exists>dss. list_all2 item_tagged (it # its) dss \<and> out = concat dss"
    then obtain ds dss where 1: "item_tagged it ds" and 2: "list_all2 item_tagged its dss"
      and 3: "out = ds @ concat dss"
      by (auto simp: list_all2_Cons1)
    from 2 Cons.IH [of "[]" "concat dss"] have "fst (process_items its [] []) = Inr (concat dss)"
      by blast
    with 1 3 c process_item_tagged [of it ds]
    show "fst (process_items (it # its) [] lg) = Inr out" by simp
  qed
qed




lemma tag_message_labelled:
  "tag_message agent_id msg = Inr m \<longleftrightarrow> labelled agent_id msg m"
proof (cases "msg_role msg")
  case None
  then show ?thesis
    by (auto simp: tag_message_def labelled_def split: option.splits)
next
  case r: (Some r)
  show ?thesis
  proof (cases "msg_content msg")
    case None
    with r show ?thesis by (simp add: tag_message_def labelled_def)
  next
    case c: (Some c)
    show ?thesis
    proof (cases "msg_timestamp msg")
      case None
      with r c show ?thesis
        by (auto simp: tag_message_def labelled_def split: sum.splits)
    next
      case t: (Some t)
      have eq: "\<And>x. (\<lparr>role = r, content = x, timestamp = t\<rparr> = m)
                  = (role m = r \<and> timestamp m = t \<and> content m = x)"
        by (cases m) auto
      show ?thesis
      proof (cases "r = ''assistant''")
        case True
        show ?thesis
        proof (cases c)
          case (ContentStr s)
          with r c t True eq show ?thesis
            by (simp add: tag_message_def labelled_def ASSISTANT_value_def first_text_def)
        next
          case (ContentList bs)
          show ?thesis
          proof (cases bs)
            case Nil
            with r c t True ContentList show ?thesis
              by (simp add: tag_message_def labelled_def ASSISTANT_value_def first_text_def)
          next
            case (Cons b bs')
            with r c t True ContentList eq show ?thesis
              by (cases "map_of b ''text''")
                 (simp_all add: tag_message_def labelled_def ASSISTANT_value_def first_text_def)
          qed
        qed
      next
        case False
        with r c t eq show ?thesis
          by (cases c) (simp_all add: tag_message_def labelled_def ASSISTANT_value_def blocks_of_def)
      qed
    qed
  qed
qed

lemma item_tagged_labelled: "item_tagged it ds \<longleftrightarrow> item_labelled it ds"
  by (auto simp: item_tagged_def item_labelled_def tag_message_labelled
           split: option.splits conv_attr.splits list.splits)

lemma aggregate_Inr:
  assumes "aggregate items = Inr result"
  shows "\<exists>all_chats. fst (process_items items [] []) = Inr all_chats
           \<and> result = remove_timestamps (sort_key timestamp all_chats)"
  using assms by (auto simp: aggregate_def split: sum.splits)







lemma list_all2_memD:
  "list_all2 P xs ys \<Longrightarrow> x \<in> set xs \<Longrightarrow> \<exists>y\<in>set ys. P x y"
  by (induction xs ys rule: list_all2_induct) auto

lemma labelled_no_first_text:
  assumes "msg_role msg = Some ''assistant''"
    and "msg_content msg = Some (ContentList [])
         \<or> (\<exists>b bs. msg_content msg = Some (ContentList (b # bs)) \<and> map_of b ''text'' = None)"
  shows "\<not> labelled agent_id msg m"
  using assms by (auto simp: labelled_def split: option.splits)

section \<open>The claims\<close>

lemmas ex_defs = user_hi_def assistant_hello_def item_of_def store_of_def ex_two_agents_def
  ex_store_down_def ex_empty_content_def ex_cached_def ex_stale_def ex_write_down_def
  ex_malformed_def ex_no_conversation_def ex_interleaved_def ex_two_blocks_def
  ex_image_first_def ex_mixed_def ex_read_down_def

lemmas run_defs = fetch_all_chats_def cache_lookup_def query_def begins_with_def
  len_conversation_def tag_message_def first_text_def ASSISTANT_value_def remove_timestamps_def
  clean_cache_def Let_def session_items_def cache_ttl_def

lemmas spec_defs = spec_aggregate_def spec_item_messages_def spec_agent_id_def spec_decode_def
  spec_label_def blocks_of_def




lemmas save_defs = save_chat_message_def save_chat_messages_def fetch_chat_with_timestamp_def
  get_item_def put_item_def generate_key_def dict_to_conversation_def dict_to_message_def
  is_same_role_as_last_message_def role_of_def trim_conversation_def make_item_def
  conversation_to_dict_def normalise_def stamp_batch_def stamp_def

text \<open>
  C2, at a concrete call. Agent A's stored conversation is \<open>[{user, "hi", t=1}]\<close> and
  the incoming message is another user turn. The call issues the read only (no
  \<open>put_item\<close>), leaves the table and the cache as they were and logs the suppression,
  but what it returns is the list of stored \<open>TimestampedMessage\<close> objects, timestamp 1
  included: line 42 returns \<open>existing_conversation\<close> itself, where line 80 returns
  \<open>_remove_timestamps(...)\<close>.
\<close>

theorem save_chat_message_suppressed_keeps_timestamps:
  "save_chat_message 5 ex_two_agents ''u'' ''s'' ''A''
       (Plain \<lparr>role = ''user'', content = ContentStr ''again''\<rparr>) None =
     (Inr (TimestampedMessages
             [\<lparr>role = ''user'', content = ContentList [[(''text'', ''hi'')]], timestamp = 1\<rparr>]),
      ex_two_agents\<lparr>calls := [GetItem], logged := [Debug_consecutive ''user'' ''A'']\<rparr>)"
  by (simp add: ex_defs save_defs Let_def)

text \<open>
  C3 as stated fails. Agent B holds an assistant message whose first block is an image
  and whose second block is the text \<open>hello\<close>. Prefixing the first text block would
  give the image followed by \<open>[B] hello\<close>; the call reads \<open>content[0]['text']\<close> and
  fails with \<open>KeyError\<close>.
\<close>

theorem fetch_all_chats_first_block_not_text:
  "fst (fetch_all_chats (\<lambda>t. 1) 5 ex_image_first ''u'' ''s'') = Inl (KeyError ''text'')
   \<and> spec_aggregate (session_items ex_image_first ''u'' ''s'') =
     [\<lparr>role = ''assistant'',
       content = ContentList [[(''image'', ''png'')], [(''text'', ''[B] hello'')]]\<rparr>]"
  by (simp add: ex_defs run_defs spec_defs)

text \<open>
  C3 as amended. On a cache miss, a call that succeeds returns exactly one message for
  every stored record of every item whose conversation is a list, sorted by timestamp,
  and each message is related to its record as follows. The agent is the second field
  of the item's sort key split on \<open>#\<close>. With role \<open>assistant\<close> the content is the one
  text block \<open>"[" + agent_id + "] " + text\<close>, where \<open>text\<close> is the text of the first
  block of the stored content, or the stored content when it is a plain string: further
  blocks are dropped, and a call over an assistant message with an empty list or a first
  block without text fails. With any other role the content is the stored one, a plain
  string made one text block, and no prefix is added. In the witness the block
  \<open>world\<close> is dropped, the user turn is not prefixed, and the call over the message
  that starts with an image fails.
\<close>

theorem fetch_all_chats_labels:
  assumes "cache_lookup self (user_id @ '':'' @ session_id) current_time = None"
  shows "(\<forall>result. fst (fetch_all_chats hash_str current_time self user_id session_id) = Inr result
            \<longrightarrow> (\<exists>dss. list_all2 item_labelled (session_items self user_id session_id) dss
                   \<and> result = map (\<lambda>m. \<lparr>role = role m, content = content m\<rparr>)
                                (sort_key timestamp (concat dss))))
       \<and> (\<forall>it conv msg. it \<in> set (session_items self user_id session_id)
              \<and> conversation it = Some (ConvList conv) \<and> msg \<in> set conv
              \<and> msg_role msg = Some ''assistant''
              \<and> (msg_content msg = Some (ContentList [])
                  \<or> (\<exists>b bs. msg_content msg = Some (ContentList (b # bs)) \<and> map_of b ''text'' = None))
            \<longrightarrow> (\<exists>e. fst (fetch_all_chats hash_str current_time self user_id session_id) = Inl e))"
proof -
  have 1: "\<exists>dss. list_all2 item_labelled (session_items self user_id session_id) dss
                   \<and> result = map (\<lambda>m. \<lparr>role = role m, content = content m\<rparr>)
                                (sort_key timestamp (concat dss))"
    if r: "fst (fetch_all_chats hash_str current_time self user_id session_id) = Inr result" for result
  proof -
    from fetch_all_chats_miss(1) [OF assms(1), of hash_str] r
    have ag: "aggregate (session_items self user_id session_id) = Inr result"
      by (simp split: if_splits)
    from aggregate_Inr [OF ag] obtain all_chats
      where pi: "fst (process_items (session_items self user_id session_id) [] []) = Inr all_chats"
        and res: "result = remove_timestamps (sort_key timestamp all_chats)" by blast
    from pi process_items_tagged [of "session_items self user_id session_id" "[]" all_chats]
    obtain dss where t: "list_all2 item_tagged (session_items self user_id session_id) dss"
      and c: "all_chats = concat dss" by blast
    have "item_tagged = item_labelled"
      by (simp add: fun_eq_iff item_tagged_labelled)
    with t have "list_all2 item_labelled (session_items self user_id session_id) dss" by simp
    with res c show ?thesis by (auto simp: remove_timestamps_def)
  qed
  have 2: "\<exists>e. fst (fetch_all_chats hash_str current_time self user_id session_id) = Inl e"
    if it: "it \<in> set (session_items self user_id session_id)"
      and cv: "conversation it = Some (ConvList conv)" and msg: "msg \<in> set conv"
      and ro: "msg_role msg = Some ''assistant''"
      and ct: "msg_content msg = Some (ContentList [])
               \<or> (\<exists>b bs. msg_content msg = Some (ContentList (b # bs)) \<and> map_of b ''text'' = None)"
    for it conv msg
  proof (cases "fst (fetch_all_chats hash_str current_time self user_id session_id)")
    case (Inl e)
    then show ?thesis by blast
  next
    case (Inr result)
    from 1 [OF Inr] obtain dss
      where "list_all2 item_labelled (session_items self user_id session_id) dss" by blast
    from list_all2_memD [OF this it] obtain ds where "item_labelled it ds" by blast
    with cv obtain agent_id where "list_all2 (labelled agent_id) conv ds"
      by (auto simp: item_labelled_def split: list.splits)
    from list_all2_memD [OF this msg] obtain m where "labelled agent_id msg m" by blast
    with labelled_no_first_text [OF ro ct] show ?thesis by blast
  qed
  from 1 2 show ?thesis by blast
qed

theorem fetch_all_chats_labels_witness:
  "cache_lookup ex_mixed (''u'' @ '':'' @ ''s'') 5 = None
   \<and> fst (fetch_all_chats (\<lambda>t. 1) 5 ex_mixed ''u'' ''s'') =
       Inr [\<lparr>role = ''assistant'', content = ContentList [[(''text'', ''[B] hello'')]]\<rparr>,
            \<lparr>role = ''user'', content = ContentList [[(''text'', ''thanks'')]]\<rparr>]
   \<and> (\<exists>dss. list_all2 item_labelled (session_items ex_mixed ''u'' ''s'') dss
         \<and> [\<lparr>role = ''assistant'', content = ContentList [[(''text'', ''[B] hello'')]]\<rparr>,
            \<lparr>role = ''user'', content = ContentList [[(''text'', ''thanks'')]]\<rparr>]
           = map (\<lambda>m. \<lparr>role = role m, content = content m\<rparr>) (sort_key timestamp (concat dss)))
   \<and> cache_lookup ex_image_first (''u'' @ '':'' @ ''s'') 5 = None
   \<and> (\<exists>e. fst (fetch_all_chats (\<lambda>t. 1) 5 ex_image_first ''u'' ''s'') = Inl e)"
proof -
  have 1: "cache_lookup ex_mixed (''u'' @ '':'' @ ''s'') 5 = None"
    by (simp add: ex_defs cache_lookup_def)
  have 2: "fst (fetch_all_chats (\<lambda>t. 1) 5 ex_mixed ''u'' ''s'') =
       Inr [\<lparr>role = ''assistant'', content = ContentList [[(''text'', ''[B] hello'')]]\<rparr>,
            \<lparr>role = ''user'', content = ContentList [[(''text'', ''thanks'')]]\<rparr>]"
    by (simp add: ex_defs run_defs)
  have 3: "cache_lookup ex_image_first (''u'' @ '':'' @ ''s'') 5 = None"
    by (simp add: ex_defs cache_lookup_def)
  define msg where "msg = \<lparr>msg_role = Some ''assistant'',
                   msg_content = Some (ContentList [[(''image'', ''png'')], [(''text'', ''hello'')]]),
                   msg_timestamp = Some 2\<rparr>"
  have 4: "item_of ''B'' (Some (ConvList [msg])) \<in> set (session_items ex_image_first ''u'' ''s'')"
    "conversation (item_of ''B'' (Some (ConvList [msg]))) = Some (ConvList [msg])"
    "msg \<in> set [msg]" "msg_role msg = Some ''assistant''"
    "msg_content msg = Some (ContentList [])
       \<or> (\<exists>b bs. msg_content msg = Some (ContentList (b # bs)) \<and> map_of b ''text'' = None)"
    by (simp_all add: ex_defs session_items_def begins_with_def msg_def)
  from fetch_all_chats_labels [OF 1, of "\<lambda>t. 1"] 2
  have a: "\<exists>dss. list_all2 item_labelled (session_items ex_mixed ''u'' ''s'') dss
         \<and> [\<lparr>role = ''assistant'', content = ContentList [[(''text'', ''[B] hello'')]]\<rparr>,
            \<lparr>role = ''user'', content = ContentList [[(''text'', ''thanks'')]]\<rparr>]
           = map (\<lambda>m. \<lparr>role = role m, content = content m\<rparr>) (sort_key timestamp (concat dss))"
    by blast
  from fetch_all_chats_labels [OF 3, of "\<lambda>t. 1"] 4
  have b: "\<exists>e. fst (fetch_all_chats (\<lambda>t. 1) 5 ex_image_first ''u'' ''s'') = Inl e"
    by blast
  from 1 2 3 a b show ?thesis by blast
qed






text \<open>
  C6. \<open>save_chat_messages\<close> leaves \<open>_chat_cache\<close> as it was, whatever the call does
  otherwise: in the witness the entry cached at time 5 survives a bulk save to the same
  session.
\<close>

theorem save_chat_messages_keeps_cache:
  "chat_cache (snd (save_chat_messages now self user_id session_id agent_id new_msgs max_history_size))
     = chat_cache self"
proof (cases "fetch_chat_with_timestamp self user_id session_id agent_id")
  case (Pair r self1)
  note fr = fetch_chat_with_timestamp_frame [OF Pair]
  show ?thesis
  proof (cases r)
    case (Inl e)
    with Pair fr show ?thesis by (simp add: save_chat_messages_def)
  next
    case (Inr existing)
    show ?thesis
    proof (cases "stamp_batch now new_msgs")
      case (Inl e)
      with Pair Inr fr show ?thesis by (simp add: save_chat_messages_def)
    next
      case st: (Inr stamped)
      obtain r2 self2 where p: "put_item self1 (make_item now self1 user_id (generate_key user_id session_id agent_id)
          (trim_conversation (existing @ stamped) max_history_size)) = (r2, self2)"
        by (cases "put_item self1 (make_item now self1 user_id (generate_key user_id session_id agent_id)
          (trim_conversation (existing @ stamped) max_history_size))") 
      from put_item_frame [OF p] Pair Inr st fr p show ?thesis
        by (auto simp: save_chat_messages_def Let_def split: sum.splits)
    qed
  qed
qed

theorem save_chat_messages_keeps_cache_witness:
  "chat_cache (snd (save_chat_messages 6 ex_cached ''u'' ''s'' ''A''
      (PlainBatch [\<lparr>role = ''assistant'', content = ContentStr ''ok''\<rparr>]) None)) ''u:s''
    = Some \<lparr>entry_timestamp = 5, entry_data =
       [\<lparr>role = ''user'', content = ContentList [[(''text'', ''hi'')]]\<rparr>,
        \<lparr>role = ''assistant'', content = ContentList [[(''text'', ''[B] hello'')]]\<rparr>]\<rparr>"
  using save_chat_messages_keeps_cache [of 6 ex_cached "''u''" "''s''" "''A''"
      "PlainBatch [\<lparr>role = ''assistant'', content = ContentStr ''ok''\<rparr>]" None]
  by (simp add: ex_cached_def)




text \<open>
  C8. When the cache holds an entry for the session whose age
  \<open>current_time - timestamp\<close> is at least \<open>_cache_ttl\<close>, \<open>fetch_all_chats\<close> issues a
  query and returns the aggregate of the table (or the query's error): the same result
  as with the entry removed. In the witness the stale entry holds the empty list, its
  age is exactly 10, and the call returns the two stored messages.
\<close>

theorem fetch_all_chats_expired_entry:
  assumes "chat_cache self (user_id @ '':'' @ session_id) = Some e"
    and "cache_ttl \<le> current_time - entry_timestamp e"
  shows "calls (snd (fetch_all_chats hash_str current_time self user_id session_id)) = calls self @ [Query]
       \<and> fst (fetch_all_chats hash_str current_time self user_id session_id) =
           (if Query \<in> failing self then Inl ClientError
            else aggregate (session_items self user_id session_id))
       \<and> fst (fetch_all_chats hash_str current_time self user_id session_id) =
           fst (fetch_all_chats hash_str current_time
                  (self\<lparr>chat_cache := (chat_cache self)((user_id @ '':'' @ session_id) := None)\<rparr>)
                  user_id session_id)"
proof -
  have 1: "cache_lookup self (user_id @ '':'' @ session_id) current_time = None"
    using assms by (simp add: cache_lookup_def)
  have 2: "cache_lookup (self\<lparr>chat_cache := (chat_cache self)((user_id @ '':'' @ session_id) := None)\<rparr>)
             (user_id @ '':'' @ session_id) current_time = None"
    by (simp add: cache_lookup_def)
  show ?thesis
    using fetch_all_chats_miss(1,2) [OF 1, of hash_str] fetch_all_chats_miss(1) [OF 2, of hash_str]
    by (simp add: session_items_def)
qed

theorem fetch_all_chats_expired_entry_witness:
  "chat_cache ex_stale (''u'' @ '':'' @ ''s'') = Some \<lparr>entry_timestamp = 5, entry_data = []\<rparr>
   \<and> cache_ttl \<le> 15 - entry_timestamp \<lparr>entry_timestamp = 5, entry_data = []\<rparr>
   \<and> calls (snd (fetch_all_chats (\<lambda>t. 1) 15 ex_stale ''u'' ''s'')) = [Query]
   \<and> fst (fetch_all_chats (\<lambda>t. 1) 15 ex_stale ''u'' ''s'') =
       Inr [\<lparr>role = ''user'', content = ContentList [[(''text'', ''hi'')]]\<rparr>,
            \<lparr>role = ''assistant'', content = ContentList [[(''text'', ''[B] hello'')]]\<rparr>]"
proof -
  have 1: "chat_cache ex_stale (''u'' @ '':'' @ ''s'') = Some \<lparr>entry_timestamp = 5, entry_data = []\<rparr>"
    by (simp add: ex_defs)
  have 2: "cache_ttl \<le> 15 - entry_timestamp \<lparr>entry_timestamp = 5, entry_data = []\<rparr>"
    by (simp add: cache_ttl_def)
  have 3: "aggregate (session_items ex_stale ''u'' ''s'') =
       Inr [\<lparr>role = ''user'', content = ContentList [[(''text'', ''hi'')]]\<rparr>,
            \<lparr>role = ''assistant'', content = ContentList [[(''text'', ''[B] hello'')]]\<rparr>]"
    by (simp add: ex_defs run_defs aggregate_def)
  have 4: "Query \<notin> failing ex_stale" "calls ex_stale = []"
    by (simp_all add: ex_defs)
  from fetch_all_chats_expired_entry [OF 1 2, of "\<lambda>t. 1"] 1 2 3 4 show ?thesis
    by simp
qed

text \<open>
  C9 as stated fails: a save that fails at the read of line 37 never reaches the
  deletion of lines 73 and 74. With the table unreachable for reads the call re-raises
  the store's error and the cache still holds the entry it held before.
\<close>

theorem save_chat_message_read_failure_keeps_cache:
  "fst (save_chat_message 6 ex_read_down ''u'' ''s'' ''A''
          (Plain \<lparr>role = ''assistant'', content = ContentStr ''ok''\<rparr>) None) = Inl ClientError
   \<and> chat_cache (snd (save_chat_message 6 ex_read_down ''u'' ''s'' ''A''
          (Plain \<lparr>role = ''assistant'', content = ContentStr ''ok''\<rparr>) None)) ''u:s''
       = Some \<lparr>entry_timestamp = 5, entry_data = []\<rparr>"
  by (simp add: ex_defs save_defs Let_def)

text \<open>
  C9 as amended. The cache entry for \<open>user_id:session_id\<close> is deleted before the write
  is attempted: whenever \<open>save_chat_message\<close> gets as far as the write (the read
  succeeded and the message is not suppressed) the entry is gone afterwards, also when
  \<open>put_item\<close> fails, the error is re-raised and the table is unchanged. A save that
  fails at the read issues no write and leaves cache and table as they were.
\<close>

theorem save_chat_message_invalidates_before_write:
  "(fst (fetch_chat_with_timestamp self user_id session_id agent_id) = Inr existing
      \<and> \<not> is_same_role_as_last_message existing new_msg \<longrightarrow>
     chat_cache (snd (save_chat_message now self user_id session_id agent_id new_msg max_history_size))
           (user_id @ '':'' @ session_id) = None
     \<and> calls (snd (save_chat_message now self user_id session_id agent_id new_msg max_history_size))
           = calls self @ [GetItem, PutItem]
     \<and> (PutItem \<in> failing self \<longrightarrow>
            fst (save_chat_message now self user_id session_id agent_id new_msg max_history_size)
              = Inl ClientError
            \<and> table (snd (save_chat_message now self user_id session_id agent_id new_msg max_history_size))
              = table self))
   \<and> (fst (fetch_chat_with_timestamp self user_id session_id agent_id) = Inl e \<longrightarrow>
        fst (save_chat_message now self user_id session_id agent_id new_msg max_history_size) = Inl e
        \<and> chat_cache (snd (save_chat_message now self user_id session_id agent_id new_msg max_history_size))
            = chat_cache self
        \<and> table (snd (save_chat_message now self user_id session_id agent_id new_msg max_history_size))
            = table self
        \<and> calls (snd (save_chat_message now self user_id session_id agent_id new_msg max_history_size))
            = calls self @ [GetItem])"
proof (intro conjI impI)
  assume a: "fst (fetch_chat_with_timestamp self user_id session_id agent_id) = Inr existing
      \<and> \<not> is_same_role_as_last_message existing new_msg"
  then obtain self1 where rd: "fetch_chat_with_timestamp self user_id session_id agent_id = (Inr existing, self1)"
    by (cases "fetch_chat_with_timestamp self user_id session_id agent_id") simp
  obtain res self' where sv:
    "save_chat_message now self user_id session_id agent_id new_msg max_history_size = (res, self')"
    by (cases "save_chat_message now self user_id session_id agent_id new_msg max_history_size")
  from a have sup: "\<not> is_same_role_as_last_message existing new_msg" by simp
  note w = save_chat_message_write(1,2,4) [OF rd sup sv]
  show "chat_cache (snd (save_chat_message now self user_id session_id agent_id new_msg max_history_size))
           (user_id @ '':'' @ session_id) = None"
    using w sv by simp
  show "calls (snd (save_chat_message now self user_id session_id agent_id new_msg max_history_size))
           = calls self @ [GetItem, PutItem]"
    using w sv by simp
  assume p: "PutItem \<in> failing self"
  show "fst (save_chat_message now self user_id session_id agent_id new_msg max_history_size)
              = Inl ClientError"
    using w(3) [OF p] sv by simp
  show "table (snd (save_chat_message now self user_id session_id agent_id new_msg max_history_size))
              = table self"
    using w(3) [OF p] sv by simp
next
  assume a: "fst (fetch_chat_with_timestamp self user_id session_id agent_id) = Inl e"
  then obtain self1 where rd: "fetch_chat_with_timestamp self user_id session_id agent_id = (Inl e, self1)"
    by (cases "fetch_chat_with_timestamp self user_id session_id agent_id") simp
  note fr = fetch_chat_with_timestamp_frame [OF rd]
  note sv = save_chat_message_read_error [OF rd, of now new_msg max_history_size]
  show "fst (save_chat_message now self user_id session_id agent_id new_msg max_history_size) = Inl e"
    using sv by simp
  show "chat_cache (snd (save_chat_message now self user_id session_id agent_id new_msg max_history_size))
            = chat_cache self"
    using sv fr by simp
  show "table (snd (save_chat_message now self user_id session_id agent_id new_msg max_history_size))
            = table self"
    using sv fr by simp
  show "calls (snd (save_chat_message now self user_id session_id agent_id new_msg max_history_size))
            = calls self @ [GetItem]"
    using sv fr by simp
qed

theorem save_chat_message_invalidates_before_write_witness:
  "chat_cache ex_write_down ''u:s'' = Some \<lparr>entry_timestamp = 5, entry_data = []\<rparr>
   \<and> fst (save_chat_message 6 ex_write_down ''u'' ''s'' ''A''
            (Plain \<lparr>role = ''assistant'', content = ContentStr ''ok''\<rparr>) None) = Inl ClientError
   \<and> chat_cache (snd (save_chat_message 6 ex_write_down ''u'' ''s'' ''A''
            (Plain \<lparr>role = ''assistant'', content = ContentStr ''ok''\<rparr>) None)) ''u:s'' = None
   \<and> fst (save_chat_message 6 ex_read_down ''u'' ''s'' ''A''
            (Plain \<lparr>role = ''assistant'', content = ContentStr ''ok''\<rparr>) None) = Inl ClientError
   \<and> chat_cache (snd (save_chat_message 6 ex_read_down ''u'' ''s'' ''A''
            (Plain \<lparr>role = ''assistant'', content = ContentStr ''ok''\<rparr>) None))
       = chat_cache ex_read_down"
proof -
  have 1: "fst (fetch_chat_with_timestamp ex_write_down ''u'' ''s'' ''A'') =
             Inr [\<lparr>role = ''user'', content = ContentList [[(''text'', ''hi'')]], timestamp = 1\<rparr>]"
    by (simp add: ex_defs save_defs Let_def)
  have 2: "\<not> is_same_role_as_last_message
               [\<lparr>role = ''user'', content = ContentList [[(''text'', ''hi'')]], timestamp = 1\<rparr>]
               (Plain \<lparr>role = ''assistant'', content = ContentStr ''ok''\<rparr>)"
    by (simp add: is_same_role_as_last_message_def role_of_def)
  have 3: "PutItem \<in> failing ex_write_down"
    by (simp add: ex_defs)
  have 4: "chat_cache ex_write_down ''u:s'' = Some \<lparr>entry_timestamp = 5, entry_data = []\<rparr>"
    by (simp add: ex_defs)
  have 5: "fst (fetch_chat_with_timestamp ex_read_down ''u'' ''s'' ''A'') = Inl ClientError"
    by (simp add: ex_defs save_defs Let_def)
  from save_chat_message_invalidates_before_write
         [of ex_write_down "''u''" "''s''" "''A''"
             "[\<lparr>role = ''user'', content = ContentList [[(''text'', ''hi'')]], timestamp = 1\<rparr>]"
             "Plain \<lparr>role = ''assistant'', content = ContentStr ''ok''\<rparr>" 6 None]
       save_chat_message_invalidates_before_write
         [of ex_read_down "''u''" "''s''" "''A''" _
             "Plain \<lparr>role = ''assistant'', content = ContentStr ''ok''\<rparr>" 6 None ClientError]
       1 2 3 4 5
  show ?thesis by simp
qed

text \<open>
  C10. A stored assistant message whose content is the empty list makes
  \<open>fetch_all_chats\<close> fail with \<open>IndexError\<close>: \<open>content[0]\<close> on line 227 is not
  guarded.
\<close>

theorem fetch_all_chats_empty_content_fails:
  "fst (fetch_all_chats (\<lambda>t. 1) 5 ex_empty_content ''u'' ''s'') = Inl IndexError"
  by (simp add: ex_defs run_defs)

end
